theory Spec2Isabelle
  imports Complex_Main "HOL-Library.Sublist"
begin

section \<open>JavaScript values as the pipes see them\<close>

text \<open>
  The pipes of \<^verbatim>\<open>packages/pipes\<close> and \<^verbatim>\<open>packages/class-validator-pipe\<close> receive a
  value of TypeScript type \<^verbatim>\<open>unknown\<close> and an \<^verbatim>\<open>ArgumentMetadata\<close>. The embedding keeps
  from a JavaScript value what the source inspects: its \<^verbatim>\<open>typeof\<close> tag, whether it is
  \<^verbatim>\<open>null\<close> or \<^verbatim>\<open>undefined\<close>, and the payload of booleans, numbers and strings.

  A string is a list of code units. The embedding uses \<^typ>\<open>string\<close>, whose characters
  are the code units below 256 (Latin-1); \<^verbatim>\<open>toLowerCase\<close> and \<^verbatim>\<open>trim\<close> are given on that
  range.

  A number is \<^verbatim>\<open>NaN\<close>, an infinity, negative zero, or a finite value. A finite value is
  kept as the exact mathematical value (a rational); the rounding of a literal to the
  nearest double is not part of the embedding. \<open>Finite 0\<close> is \<^verbatim>\<open>+0\<close>.
\<close>

datatype jsnum = NaN | Infinity | NegInfinity | NegZero | Finite rat

datatype jsval =
    VUndefined
  | VNull
  | VBoolean bool
  | VNumber jsnum
  | VString string
  | VBigInt int
  | VSymbol nat
  | VFunction nat
  | VObject nat

text \<open>\<^verbatim>\<open>typeof value\<close>.\<close>

fun typeof :: "jsval \<Rightarrow> string" where
  "typeof VUndefined = ''undefined''"
| "typeof VNull = ''object''"
| "typeof (VBoolean b) = ''boolean''"
| "typeof (VNumber n) = ''number''"
| "typeof (VString s) = ''string''"
| "typeof (VBigInt i) = ''bigint''"
| "typeof (VSymbol k) = ''symbol''"
| "typeof (VFunction k) = ''function''"
| "typeof (VObject k) = ''object''"

text \<open>
  What a \<^verbatim>\<open>throw\<close> carries. The source distinguishes \<^verbatim>\<open>BadRequestException\<close> (by
  \<^verbatim>\<open>instanceof\<close>) from everything else, and of everything else reads the \<^verbatim>\<open>message\<close>
  (\<^verbatim>\<open>(error as Error).message\<close>); so the other thrown values are \<^verbatim>\<open>Error\<close> objects with
  their message.
\<close>

datatype thrown = BadRequestException string | Error string

text \<open>
  The \<^verbatim>\<open>metatype\<close> of the metadata is a constructor function, compared by identity
  with the global constructors; \<open>Class k\<close> is any other constructor.
\<close>

datatype metatype = String | Boolean | Number | Array | Object | Class nat

record ArgumentMetadata =
  type :: string
  metatype :: "metatype option"
  data :: "string option"

text \<open>
  The value handed to \<^verbatim>\<open>transform\<close> is a plain value or a \<^verbatim>\<open>Promise\<close>; \<^verbatim>\<open>await\<close> on a
  promise yields its value or throws its rejection reason. Promises that never settle
  are outside the embedding (\<^verbatim>\<open>await\<close> would not return).
\<close>

datatype promise = Fulfilled jsval | Rejected thrown

datatype input = Plain jsval | Promise promise

section \<open>The built-ins the primitive pipe calls\<close>

text \<open>
  \<^verbatim>\<open>String.prototype.toLowerCase\<close> on code units below 256: the letters \<^verbatim>\<open>A\<close> to \<^verbatim>\<open>Z\<close>
  and the Latin-1 capitals (192 to 222 without the multiplication sign 215) move up by
  32, every other code unit stays.
\<close>

definition toLowerCaseChar :: "char \<Rightarrow> char" where
  "toLowerCaseChar c =
     (let n = (of_char c :: nat)
      in if (65 \<le> n \<and> n \<le> 90) \<or> (192 \<le> n \<and> n \<le> 222 \<and> n \<noteq> 215)
         then char_of (n + 32) else c)"

definition toLowerCase :: "string \<Rightarrow> string" where
  "toLowerCase s = map toLowerCaseChar s"

text \<open>
  White space and line terminators of ECMAScript below 256: TAB, LF, VT, FF, CR, SP and
  NBSP. \<^verbatim>\<open>String.prototype.trim\<close> removes them from both ends.
\<close>

definition isStrWhiteSpaceChar :: "char \<Rightarrow> bool" where
  "isStrWhiteSpaceChar c = ((of_char c :: nat) \<in> set [9, 10, 11, 12, 13, 32, 160])"

definition trim :: "string \<Rightarrow> string" where
  "trim s = rev (dropWhile isStrWhiteSpaceChar (rev (dropWhile isStrWhiteSpaceChar s)))"

text \<open>
  \<^verbatim>\<open>Number(value)\<close> on a string is ECMAScript's \<^verbatim>\<open>StringToNumber\<close>: the string, with
  white space removed from both ends, is read as a \<^verbatim>\<open>StrNumericLiteral\<close>; the empty
  remainder is \<^verbatim>\<open>+0\<close>, a remainder that is no literal is \<^verbatim>\<open>NaN\<close>. The grammar:
  \<^verbatim>\<open>0x\<close>, \<^verbatim>\<open>0o\<close>, \<^verbatim>\<open>0b\<close> followed by digits of that base (no sign); or an optional
  sign followed by \<^verbatim>\<open>Infinity\<close>, \<^verbatim>\<open>digits [. [digits]] [exponent]\<close> or
  \<^verbatim>\<open>. digits [exponent]\<close>, the exponent being \<^verbatim>\<open>e\<close> or \<^verbatim>\<open>E\<close>, an optional sign and
  digits.
\<close>

definition isDecimalDigit :: "char \<Rightarrow> bool" where
  "isDecimalDigit c = (c \<in> set ''0123456789'')"

definition isHexDigit :: "char \<Rightarrow> bool" where
  "isHexDigit c = (c \<in> set ''0123456789abcdefABCDEF'')"

definition isOctalDigit :: "char \<Rightarrow> bool" where
  "isOctalDigit c = (c \<in> set ''01234567'')"

definition isBinaryDigit :: "char \<Rightarrow> bool" where
  "isBinaryDigit c = (c \<in> set ''01'')"

definition digitValue :: "char \<Rightarrow> nat" where
  "digitValue c =
     (if isDecimalDigit c then of_char c - 48
      else if c \<in> set ''abcdef'' then of_char c - 87
      else of_char c - 55)"

definition digitsValue :: "nat \<Rightarrow> string \<Rightarrow> nat" where
  "digitsValue base ds = foldl (\<lambda>a c. base * a + digitValue c) 0 ds"

definition pow10 :: "int \<Rightarrow> rat" where
  "pow10 k = (if 0 \<le> k then 10 ^ nat k else 1 / 10 ^ nat (- k))"

definition NonDecimalIntegerLiteral :: "string \<Rightarrow> jsnum option" where
  "NonDecimalIntegerLiteral t =
     (case t of
        c0 # c1 # ds \<Rightarrow>
          if c0 = CHR ''0'' \<and> c1 \<in> set ''xX'' \<and> ds \<noteq> [] \<and> dropWhile isHexDigit ds = []
            then Some (Finite (of_nat (digitsValue 16 ds)))
          else if c0 = CHR ''0'' \<and> c1 \<in> set ''oO'' \<and> ds \<noteq> [] \<and> dropWhile isOctalDigit ds = []
            then Some (Finite (of_nat (digitsValue 8 ds)))
          else if c0 = CHR ''0'' \<and> c1 \<in> set ''bB'' \<and> ds \<noteq> [] \<and> dropWhile isBinaryDigit ds = []
            then Some (Finite (of_nat (digitsValue 2 ds)))
          else None
      | _ \<Rightarrow> None)"

text \<open>The exponent part, or nothing: the power of ten it stands for.\<close>

definition ExponentPart :: "string \<Rightarrow> int option" where
  "ExponentPart r =
     (case r of
        [] \<Rightarrow> Some 0
      | c # r1 \<Rightarrow>
          if c \<in> set ''eE'' then
            (let neg = (case r1 of s # _ \<Rightarrow> s = CHR ''-'' | [] \<Rightarrow> False);
                 ds = (case r1 of s # r2 \<Rightarrow> if s \<in> set ''+-'' then r2 else r1 | [] \<Rightarrow> r1)
             in if ds \<noteq> [] \<and> dropWhile isDecimalDigit ds = []
                then Some (if neg then - int (digitsValue 10 ds) else int (digitsValue 10 ds))
                else None)
          else None)"

definition StrUnsignedDecimalLiteral :: "string \<Rightarrow> rat option" where
  "StrUnsignedDecimalLiteral t =
     (let ip = takeWhile isDecimalDigit t;
          r1 = dropWhile isDecimalDigit t;
          fp = (case r1 of c # r \<Rightarrow> if c = CHR ''.'' then takeWhile isDecimalDigit r else [] | [] \<Rightarrow> []);
          r2 = (case r1 of c # r \<Rightarrow> if c = CHR ''.'' then dropWhile isDecimalDigit r else r1 | [] \<Rightarrow> [])
      in if ip = [] \<and> fp = [] then None
         else (case ExponentPart r2 of
                 None \<Rightarrow> None
               | Some e \<Rightarrow> Some (of_nat (digitsValue 10 (ip @ fp)) * pow10 (e - int (length fp)))))"

definition StrDecimalLiteral :: "string \<Rightarrow> jsnum option" where
  "StrDecimalLiteral t =
     (let neg = (case t of s # _ \<Rightarrow> s = CHR ''-'' | [] \<Rightarrow> False);
          u = (case t of s # r \<Rightarrow> if s \<in> set ''+-'' then r else t | [] \<Rightarrow> t)
      in if u = ''Infinity'' then Some (if neg then NegInfinity else Infinity)
         else (case StrUnsignedDecimalLiteral u of
                 None \<Rightarrow> None
               | Some m \<Rightarrow> Some (if neg then (if m = 0 then NegZero else Finite (- m)) else Finite m)))"

definition StringToNumber :: "string \<Rightarrow> jsnum" where
  "StringToNumber str =
     (let t = trim str
      in if t = [] then Finite 0
         else (case NonDecimalIntegerLiteral t of
                 Some n \<Rightarrow> n
               | None \<Rightarrow> (case StrDecimalLiteral t of Some n \<Rightarrow> n | None \<Rightarrow> NaN)))"

text \<open>\<^verbatim>\<open>isNaN\<close> on a number, and \<^verbatim>\<open>!!value\<close> on a number (\<^verbatim>\<open>ToBoolean\<close>).\<close>

definition isNaN :: "jsnum \<Rightarrow> bool" where
  "isNaN n = (n = NaN)"

definition ToBoolean :: "jsnum \<Rightarrow> bool" where
  "ToBoolean n = (n \<noteq> NaN \<and> n \<noteq> NegZero \<and> n \<noteq> Finite 0)"

text \<open>\<^verbatim>\<open>Array.prototype.join\<close> on an array of strings.\<close>

fun join :: "string \<Rightarrow> string list \<Rightarrow> string" where
  "join sep [] = []"
| "join sep [x] = x"
| "join sep (x # y # ys) = x @ sep @ join sep (y # ys)"

section \<open>PrimitiveValidationPipe\<close>

text \<open>
  \<^verbatim>\<open>packages/pipes/src/primitive-validation.pipe.ts\<close>. The options object has three
  optional boolean fields; a field that is absent reads as \<^verbatim>\<open>undefined\<close>.
\<close>

record PrimitiveOptions =
  transformBoolean :: "bool option"
  transformNumber :: "bool option"
  transformString :: "bool option"

record PrimitiveValidationPipe =
  options :: PrimitiveOptions

text \<open>
  The constructor has one parameter property with a default value: the default object is
  taken when the argument is omitted, and the argument itself is stored otherwise.
\<close>

definition PrimitiveValidationPipe_constructor :: "PrimitiveOptions option \<Rightarrow> PrimitiveValidationPipe" where
  "PrimitiveValidationPipe_constructor opts =
     (case opts of
        None \<Rightarrow> \<lparr>options = \<lparr>transformBoolean = Some True, transformNumber = Some True,
                              transformString = Some True\<rparr>\<rparr>
      | Some given \<Rightarrow> \<lparr>options = given\<rparr>)"

text \<open>The truth value of an optional boolean in a condition.\<close>

definition truthy :: "bool option \<Rightarrow> bool" where
  "truthy b = (b = Some True)"

definition quote :: string where
  "quote = [CHR 0x27]"

text \<open>
  \<^verbatim>\<open>transformValue\<close>. \<^verbatim>\<open>String(value)\<close> on a value that is no string is outside the
  repository: on an object it runs the object's own conversion methods and may throw, on
  a number it prints the double. It is the parameter \<open>ToString\<close>, and what is proved
  holds for every such function. \<^verbatim>\<open>typeof value === 'string'\<close> and its like are the cases
  of the value; the last case of each branch is the \<^verbatim>\<open>throw\<close> that reports \<^verbatim>\<open>typeof value\<close>.
\<close>

definition transformValue ::
  "(jsval \<Rightarrow> thrown + string) \<Rightarrow> PrimitiveValidationPipe \<Rightarrow> jsval \<Rightarrow> metatype \<Rightarrow> thrown + jsval" where
  "transformValue ToString this value mt =
     (if mt = String \<and> truthy (transformString (options this)) then
        (case value of
           VString s \<Rightarrow> Inr value
         | VNull \<Rightarrow> Inr value
         | VUndefined \<Rightarrow> Inr value
         | _ \<Rightarrow> (case ToString value of
                  Inl e \<Rightarrow> Inl e
                | Inr stringValue \<Rightarrow> Inr (VString stringValue)))
      else if mt = Number \<and> truthy (transformNumber (options this)) then
        (case value of
           VNumber n \<Rightarrow> Inr value
         | VString s \<Rightarrow>
             (let parsedValue = StringToNumber s
              in if isNaN parsedValue
                 then Inl (BadRequestException (''Cannot convert '' @ quote @ s @ quote @ '' to a number''))
                 else Inr (VNumber parsedValue))
         | _ \<Rightarrow> Inl (BadRequestException (''Cannot convert '' @ typeof value @ '' to a number'')))
      else if mt = Boolean \<and> truthy (transformBoolean (options this)) then
        (case value of
           VBoolean b \<Rightarrow> Inr value
         | VString s \<Rightarrow>
             (let normalizedValue = trim (toLowerCase s)
              in if normalizedValue \<in> set [''true'', ''yes'', ''1'', ''on''] then Inr (VBoolean True)
                 else if normalizedValue \<in> set [''false'', ''no'', ''0'', ''off''] then Inr (VBoolean False)
                 else Inl (BadRequestException
                             (''Cannot convert string '' @ quote @ s @ quote @ '' to a boolean'')))
         | VNumber n \<Rightarrow> Inr (VBoolean (ToBoolean n))
         | _ \<Rightarrow> Inl (BadRequestException (''Cannot convert '' @ typeof value @ '' to a boolean'')))
      else Inr value)"

text \<open>
  \<^verbatim>\<open>transform\<close>: the promise is awaited, \<^verbatim>\<open>null\<close> and \<^verbatim>\<open>undefined\<close> return, a missing
  metatype returns, and \<^verbatim>\<open>transformValue\<close> runs inside \<^verbatim>\<open>try\<close>. The handler is
  \<open>PrimitiveValidationPipe_catch\<close>.
\<close>

definition PrimitiveValidationPipe_catch :: "ArgumentMetadata \<Rightarrow> thrown \<Rightarrow> thrown" where
  "PrimitiveValidationPipe_catch metadata error =
     (case error of
        BadRequestException m \<Rightarrow> error
      | Error message \<Rightarrow> BadRequestException (''Failed to validate '' @ type metadata @ '': '' @ message))"

definition PrimitiveValidationPipe_transform ::
  "(jsval \<Rightarrow> thrown + string) \<Rightarrow> PrimitiveValidationPipe \<Rightarrow> input \<Rightarrow> ArgumentMetadata \<Rightarrow> thrown + jsval" where
  "PrimitiveValidationPipe_transform ToString this value0 metadata =
     (case (case value0 of
              Plain v \<Rightarrow> Inr v
            | Promise (Fulfilled v) \<Rightarrow> Inr v
            | Promise (Rejected reason) \<Rightarrow> Inl (BadRequestException ''Invalid request data'')) of
        Inl e \<Rightarrow> Inl e
      | Inr value \<Rightarrow>
          if value = VNull \<or> value = VUndefined then Inr value
          else (case metatype metadata of
                  None \<Rightarrow> Inr value
                | Some mt \<Rightarrow>
                    (case transformValue ToString this value mt of
                       Inr result \<Rightarrow> Inr result
                     | Inl error \<Rightarrow> Inl (PrimitiveValidationPipe_catch metadata error))))"

section \<open>The class-validator pipes\<close>

text \<open>
  A \<^verbatim>\<open>ValidationError\<close> of class-validator, with the fields the pipes read, in this
  order: \<^verbatim>\<open>property\<close>, the name; \<^verbatim>\<open>constraints\<close>, an optional object (its entries in the
  order \<^verbatim>\<open>Object.values\<close> lists them: constraint name and message); \<^verbatim>\<open>children\<close>, an
  optional array.
\<close>

datatype ValidationError =
  ValidationError string "(string \<times> string) list option" "ValidationError list option"

text \<open>
  Option objects are maps from field names to values; an object spread is the override
  of one map by another.
\<close>

type_synonym ValidatorOptions = "string \<rightharpoonup> jsval"

type_synonym ClassTransformOptions = "string \<rightharpoonup> jsval"

text \<open>
  \<^verbatim>\<open>plainToInstance\<close> of class-transformer and \<^verbatim>\<open>validate\<close> of class-validator are
  external; each returns or throws (for \<^verbatim>\<open>validate\<close>: its promise is fulfilled or
  rejected). A pipe's result comes with the list of the calls it made to them, in order.
\<close>

record capabilities =
  plainToInstance :: "metatype \<Rightarrow> jsval \<Rightarrow> ClassTransformOptions \<Rightarrow> thrown + jsval"
  validate :: "jsval \<Rightarrow> ValidatorOptions \<Rightarrow> thrown + ValidationError list"

datatype call = Call_plainToInstance | Call_validate

subsection \<open>ClassValidationPipe\<close>

text \<open>\<^verbatim>\<open>packages/class-validator-pipe/src/class-validation.pipe.ts\<close>.\<close>

record ClassValidationPipe =
  validatorOptions :: ValidatorOptions
  transformOptions :: ClassTransformOptions

definition ClassValidationPipe_constructor ::
  "ValidatorOptions option \<Rightarrow> ClassTransformOptions option \<Rightarrow> ClassValidationPipe" where
  "ClassValidationPipe_constructor vopts topts =
     \<lparr>validatorOptions =
        [''whitelist'' \<mapsto> VBoolean True, ''forbidNonWhitelisted'' \<mapsto> VBoolean False]
          ++ (case vopts of None \<Rightarrow> Map.empty | Some given \<Rightarrow> given),
      transformOptions =
        [''enableImplicitConversion'' \<mapsto> VBoolean True]
          ++ (case topts of None \<Rightarrow> Map.empty | Some given \<Rightarrow> given)\<rparr>"

text \<open>
  \<^verbatim>\<open>buildErrorMessages\<close>: the \<^verbatim>\<open>forEach\<close> loop as a recursion over the array, the messages
  of the first error in front of those of the rest. The condition \<^verbatim>\<open>parentProperty ?\<close>
  holds for a parent path that is given and is not the empty string; \<^verbatim>\<open>error.constraints\<close>
  holds for every constraints object, an empty one as well.
\<close>

fun ClassValidationPipe_buildErrorMessages :: "ValidationError list \<Rightarrow> string option \<Rightarrow> string list" where
  "ClassValidationPipe_buildErrorMessages [] parentProperty = []"
| "ClassValidationPipe_buildErrorMessages (ValidationError property constraints children # errors) parentProperty =
     (let propertyPath =
            (case parentProperty of
               None \<Rightarrow> property
             | Some parent \<Rightarrow> if parent = [] then property else parent @ ''.'' @ property);
          pushed =
            (case constraints of
               None \<Rightarrow> []
             | Some cs \<Rightarrow> [propertyPath @ '': '' @ join '', '' (map snd cs)]);
          nested =
            (case children of
               None \<Rightarrow> []
             | Some cs \<Rightarrow>
                 if length cs > 0 then ClassValidationPipe_buildErrorMessages cs (Some propertyPath) else [])
      in pushed @ nested @ ClassValidationPipe_buildErrorMessages errors parentProperty)"

definition ClassValidationPipe_toValidate :: "metatype \<Rightarrow> bool" where
  "ClassValidationPipe_toValidate mt =
     (let types = [String, Boolean, Number, Array, Object];
          result = (mt \<notin> set types)
      in result)"

text \<open>The body of the \<^verbatim>\<open>try\<close> block of \<^verbatim>\<open>transform\<close>, and its \<^verbatim>\<open>catch\<close> handler.\<close>

definition ClassValidationPipe_try ::
  "capabilities \<Rightarrow> ClassValidationPipe \<Rightarrow> metatype \<Rightarrow> jsval \<Rightarrow> call list \<times> (thrown + jsval)" where
  "ClassValidationPipe_try caps this mt resolvedValue =
     (case plainToInstance caps mt resolvedValue (ClassValidationPipe.transformOptions this) of
        Inl e \<Rightarrow> ([Call_plainToInstance], Inl e)
      | Inr object \<Rightarrow>
          (case validate caps object (ClassValidationPipe.validatorOptions this) of
             Inl e \<Rightarrow> ([Call_plainToInstance, Call_validate], Inl e)
           | Inr errors \<Rightarrow>
               if length errors > 0 then
                 (let errorMessage = join ''; '' (ClassValidationPipe_buildErrorMessages errors None)
                  in ([Call_plainToInstance, Call_validate], Inl (BadRequestException errorMessage)))
               else ([Call_plainToInstance, Call_validate], Inr object)))"

definition ClassValidationPipe_catch :: "thrown \<Rightarrow> thrown" where
  "ClassValidationPipe_catch error =
     (case error of
        BadRequestException m \<Rightarrow> error
      | Error m \<Rightarrow> BadRequestException ''Validation failed'')"

text \<open>
  \<^verbatim>\<open>transform\<close>: the promise is awaited; without a metatype, or with one that
  \<^verbatim>\<open>toValidate\<close> excludes, the resolved value returns; then \<^verbatim>\<open>null\<close> and \<^verbatim>\<open>undefined\<close>
  return; then the \<^verbatim>\<open>try\<close> block runs.
\<close>

definition ClassValidationPipe_transform ::
  "capabilities \<Rightarrow> ClassValidationPipe \<Rightarrow> input \<Rightarrow> ArgumentMetadata \<Rightarrow> call list \<times> (thrown + jsval)" where
  "ClassValidationPipe_transform caps this value metadata =
     (case (case value of
              Plain v \<Rightarrow> Inr v
            | Promise (Fulfilled v) \<Rightarrow> Inr v
            | Promise (Rejected reason) \<Rightarrow> Inl (BadRequestException ''Invalid request data'')) of
        Inl e \<Rightarrow> ([], Inl e)
      | Inr resolvedValue \<Rightarrow>
          (case metatype metadata of
             None \<Rightarrow> ([], Inr resolvedValue)
           | Some mt \<Rightarrow>
               if ClassValidationPipe_toValidate mt then
                 (if resolvedValue = VNull \<or> resolvedValue = VUndefined then ([], Inr resolvedValue)
                  else (case ClassValidationPipe_try caps this mt resolvedValue of
                          (calls, Inr object) \<Rightarrow> (calls, Inr object)
                        | (calls, Inl error) \<Rightarrow> (calls, Inl (ClassValidationPipe_catch error))))
               else ([], Inr resolvedValue)))"

subsection \<open>ClassValidatorPipe\<close>

text \<open>\<^verbatim>\<open>packages/class-validator-pipe/src/class-validator.pipe.ts\<close>.\<close>

record ClassValidatorPipe =
  validatorOptions :: ValidatorOptions
  transformOptions :: ClassTransformOptions

definition ClassValidatorPipe_constructor ::
  "ValidatorOptions option \<Rightarrow> ClassTransformOptions option \<Rightarrow> ClassValidatorPipe" where
  "ClassValidatorPipe_constructor vopts topts =
     \<lparr>validatorOptions =
        [''whitelist'' \<mapsto> VBoolean True, ''forbidNonWhitelisted'' \<mapsto> VBoolean False]
          ++ (case vopts of None \<Rightarrow> Map.empty | Some given \<Rightarrow> given),
      transformOptions =
        [''enableImplicitConversion'' \<mapsto> VBoolean True]
          ++ (case topts of None \<Rightarrow> Map.empty | Some given \<Rightarrow> given)\<rparr>"

fun ClassValidatorPipe_buildErrorMessages :: "ValidationError list \<Rightarrow> string option \<Rightarrow> string list" where
  "ClassValidatorPipe_buildErrorMessages [] parentProperty = []"
| "ClassValidatorPipe_buildErrorMessages (ValidationError property constraints children # errors) parentProperty =
     (let propertyPath =
            (case parentProperty of
               None \<Rightarrow> property
             | Some parent \<Rightarrow> if parent = [] then property else parent @ ''.'' @ property);
          pushed =
            (case constraints of
               None \<Rightarrow> []
             | Some cs \<Rightarrow> [propertyPath @ '': '' @ join '', '' (map snd cs)]);
          nested =
            (case children of
               None \<Rightarrow> []
             | Some cs \<Rightarrow>
                 if length cs > 0 then ClassValidatorPipe_buildErrorMessages cs (Some propertyPath) else [])
      in pushed @ nested @ ClassValidatorPipe_buildErrorMessages errors parentProperty)"

definition ClassValidatorPipe_toValidate :: "metatype \<Rightarrow> bool" where
  "ClassValidatorPipe_toValidate mt =
     (let types = [String, Boolean, Number, Array, Object];
          result = (mt \<notin> set types)
      in result)"

text \<open>The body of the \<^verbatim>\<open>try\<close> block of \<^verbatim>\<open>transform\<close>, and its \<^verbatim>\<open>catch\<close> handler.\<close>

definition ClassValidatorPipe_try ::
  "capabilities \<Rightarrow> ClassValidatorPipe \<Rightarrow> metatype \<Rightarrow> jsval \<Rightarrow> call list \<times> (thrown + jsval)" where
  "ClassValidatorPipe_try caps this mt resolvedValue =
     (case plainToInstance caps mt resolvedValue (ClassValidatorPipe.transformOptions this) of
        Inl e \<Rightarrow> ([Call_plainToInstance], Inl e)
      | Inr object \<Rightarrow>
          (case validate caps object (ClassValidatorPipe.validatorOptions this) of
             Inl e \<Rightarrow> ([Call_plainToInstance, Call_validate], Inl e)
           | Inr errors \<Rightarrow>
               if length errors > 0 then
                 (let errorMessage = join ''; '' (ClassValidatorPipe_buildErrorMessages errors None)
                  in ([Call_plainToInstance, Call_validate], Inl (BadRequestException errorMessage)))
               else ([Call_plainToInstance, Call_validate], Inr object)))"

definition ClassValidatorPipe_catch :: "thrown \<Rightarrow> thrown" where
  "ClassValidatorPipe_catch error =
     (case error of
        BadRequestException m \<Rightarrow> error
      | Error m \<Rightarrow> BadRequestException ''Validation failed'')"

definition ClassValidatorPipe_transform ::
  "capabilities \<Rightarrow> ClassValidatorPipe \<Rightarrow> input \<Rightarrow> ArgumentMetadata \<Rightarrow> call list \<times> (thrown + jsval)" where
  "ClassValidatorPipe_transform caps this value metadata =
     (case (case value of
              Plain v \<Rightarrow> Inr v
            | Promise (Fulfilled v) \<Rightarrow> Inr v
            | Promise (Rejected reason) \<Rightarrow> Inl (BadRequestException ''Invalid request data'')) of
        Inl e \<Rightarrow> ([], Inl e)
      | Inr resolvedValue \<Rightarrow>
          (case metatype metadata of
             None \<Rightarrow> ([], Inr resolvedValue)
           | Some mt \<Rightarrow>
               if ClassValidatorPipe_toValidate mt then
                 (if resolvedValue = VNull \<or> resolvedValue = VUndefined then ([], Inr resolvedValue)
                  else (case ClassValidatorPipe_try caps this mt resolvedValue of
                          (calls, Inr object) \<Rightarrow> (calls, Inr object)
                        | (calls, Inl error) \<Rightarrow> (calls, Inl (ClassValidatorPipe_catch error))))
               else ([], Inr resolvedValue)))"

section \<open>The flattening of a violation tree, as the specification words it\<close>

text \<open>
  The specification's flattening, for comparison with \<^verbatim>\<open>buildErrorMessages\<close>: depth first,
  a node's own segment before those of its children, the path of a node being the
  property names of its ancestors and its own joined with a dot, and the segment being
  the path, a colon and the constraint messages joined with a comma. \<open>ancestors\<close> are
  the names above the nodes of the list, outermost first.
\<close>

fun spec_flatten :: "string list \<Rightarrow> ValidationError list \<Rightarrow> string list" where
  "spec_flatten ancestors [] = []"
| "spec_flatten ancestors (ValidationError property constraints children # errors) =
     (case constraints of
        None \<Rightarrow> []
      | Some cs \<Rightarrow> [join ''.'' (ancestors @ [property]) @ '': '' @ join '', '' (map snd cs)])
     @ (case children of
          None \<Rightarrow> []
        | Some cs \<Rightarrow> spec_flatten (ancestors @ [property]) cs)
     @ spec_flatten ancestors errors"

text \<open>Every node of the forest has a property name that is not the empty string.\<close>

fun names_nonempty :: "ValidationError list \<Rightarrow> bool" where
  "names_nonempty [] = True"
| "names_nonempty (ValidationError property constraints children # errors) =
     (property \<noteq> []
      \<and> (case children of None \<Rightarrow> True | Some cs \<Rightarrow> names_nonempty cs)
      \<and> names_nonempty errors)"

section \<open>Sample collaborators\<close>

text \<open>
  Concrete stand-ins for the external functions, used where a statement is evaluated at
  an input: a \<^verbatim>\<open>plainToInstance\<close> that throws and one that returns its argument, a
  \<^verbatim>\<open>validate\<close> that throws, one that throws a \<^verbatim>\<open>BadRequestException\<close>, one that reports
  nothing and two that report violations, and a \<^verbatim>\<open>String\<close> conversion that throws.
\<close>

definition failing_plainToInstance :: "metatype \<Rightarrow> jsval \<Rightarrow> ClassTransformOptions \<Rightarrow> thrown + jsval" where
  "failing_plainToInstance mt v opts = Inl (Error ''boom'')"

definition identity_plainToInstance :: "metatype \<Rightarrow> jsval \<Rightarrow> ClassTransformOptions \<Rightarrow> thrown + jsval" where
  "identity_plainToInstance mt v opts = Inr v"

definition failing_validate :: "jsval \<Rightarrow> ValidatorOptions \<Rightarrow> thrown + ValidationError list" where
  "failing_validate obj opts = Inl (Error ''database unreachable'')"

definition classified_validate :: "jsval \<Rightarrow> ValidatorOptions \<Rightarrow> thrown + ValidationError list" where
  "classified_validate obj opts = Inl (BadRequestException ''custom rule failed'')"

definition no_violations :: "jsval \<Rightarrow> ValidatorOptions \<Rightarrow> thrown + ValidationError list" where
  "no_violations obj opts = Inr []"

definition user_violations :: "ValidationError list" where
  "user_violations =
     [ValidationError ''name''
        (Some [(''minLength'', ''name is too short''), (''isString'', ''name must be a string'')]) None,
      ValidationError ''address'' None
        (Some [ValidationError ''street'' (Some [(''isString'', ''street must be a string'')])
                 (Some [])])]"

definition report_user_violations :: "jsval \<Rightarrow> ValidatorOptions \<Rightarrow> thrown + ValidationError list" where
  "report_user_violations obj opts = Inr user_violations"

definition unnamed_parent_violations :: "ValidationError list" where
  "unnamed_parent_violations =
     [ValidationError '''' None (Some [ValidationError ''c'' (Some [(''isString'', ''m'')]) None])]"

definition report_unnamed_parent :: "jsval \<Rightarrow> ValidatorOptions \<Rightarrow> thrown + ValidationError list" where
  "report_unnamed_parent obj opts = Inr unnamed_parent_violations"

definition failing_ToString :: "jsval \<Rightarrow> thrown + string" where
  "failing_ToString v = Inl (Error ''Cannot convert object to primitive value'')"

section \<open>The number target\<close>

lemma StringToNumber_empty: "StringToNumber '''' = Finite 0"
  by (simp add: StringToNumber_def trim_def)

lemma StringToNumber_abc: "StringToNumber ''abc'' = NaN"
  by code_simp

lemma StringToNumber_12abc: "StringToNumber ''12abc'' = NaN"
  by code_simp

lemma StringToNumber_42: "StringToNumber ''42'' = Finite 42"
  by code_simp

text \<open>
  With number coercion on, a text under the number target gives the parsed number, and
  fails with the documented message exactly when the parse is \<^verbatim>\<open>NaN\<close>.
\<close>

lemma transformValue_number_text:
  "truthy (transformNumber (options this)) \<Longrightarrow>
   transformValue ToString this (VString s) Number =
     (if StringToNumber s = NaN
      then Inl (BadRequestException (''Cannot convert '' @ quote @ s @ quote @ '' to a number''))
      else Inr (VNumber (StringToNumber s)))"
  by (simp add: transformValue_def isNaN_def Let_def)

lemma PrimitiveValidationPipe_transform_number_text:
  assumes "truthy (transformNumber (options this))"
    and "input = Plain (VString s) \<or> input = Promise (Fulfilled (VString s))"
    and "metatype metadata = Some Number"
  shows "PrimitiveValidationPipe_transform ToString this input metadata =
     (if StringToNumber s = NaN
      then Inl (BadRequestException (''Cannot convert '' @ quote @ s @ quote @ '' to a number''))
      else Inr (VNumber (StringToNumber s)))"
  using assms
  by (auto simp: PrimitiveValidationPipe_transform_def transformValue_number_text
      PrimitiveValidationPipe_catch_def)

lemma number_target_examples:
  "PrimitiveValidationPipe_transform ToString (PrimitiveValidationPipe_constructor None)
     (Plain (VString ''abc'')) \<lparr>type = ''query'', metatype = Some Number, data = None\<rparr>
     = Inl (BadRequestException (''Cannot convert '' @ quote @ ''abc'' @ quote @ '' to a number''))"
  "PrimitiveValidationPipe_transform ToString (PrimitiveValidationPipe_constructor None)
     (Plain (VString ''12abc'')) \<lparr>type = ''query'', metatype = Some Number, data = None\<rparr>
     = Inl (BadRequestException (''Cannot convert '' @ quote @ ''12abc'' @ quote @ '' to a number''))"
  "PrimitiveValidationPipe_transform ToString (PrimitiveValidationPipe_constructor None)
     (Plain (VString ''42'')) \<lparr>type = ''query'', metatype = Some Number, data = None\<rparr>
     = Inr (VNumber (Finite 42))"
  by (simp_all add: PrimitiveValidationPipe_transform_number_text
      PrimitiveValidationPipe_constructor_def truthy_def
      StringToNumber_abc StringToNumber_12abc StringToNumber_42)

text \<open>
  C1. The claim: under the number target with number coercion enabled, a text that parses
  to a finite number yields that number, and a text that does not look like a number,
  the empty string among them, fails with the message \<^verbatim>\<open>Cannot convert '<value>' to a number\<close>.
  The first half holds (\<open>PrimitiveValidationPipe_transform_number_text\<close>), and so does
  the failure for \<^verbatim>\<open>"abc"\<close> and \<^verbatim>\<open>"12abc"\<close> (\<open>number_target_examples\<close>). The empty
  string does not fail: \<^verbatim>\<open>Number("")\<close> is \<^verbatim>\<open>0\<close>, which is not \<^verbatim>\<open>NaN\<close>, so a pipe built
  with the default options returns the number 0. The package's README lists
  \<^verbatim>\<open>"" -> Error: Cannot convert '' to a number\<close>.
\<close>

theorem C1_empty_text_is_zero:
  "PrimitiveValidationPipe_transform ToString (PrimitiveValidationPipe_constructor None)
     (Plain (VString '''')) \<lparr>type = ''query'', metatype = Some Number, data = None\<rparr>
   = Inr (VNumber (Finite 0))"
  by (simp add: PrimitiveValidationPipe_transform_def PrimitiveValidationPipe_constructor_def
      transformValue_number_text truthy_def StringToNumber_empty)

section \<open>The coercion switches\<close>

text \<open>
  C2. The claim: a pipe constructed with an options object that names only some of the
  three switches treats each switch it does not name as enabled. The constructor stores
  the given object as it is; the default object stands in only when no object is given.
  A switch the object does not name reads \<^verbatim>\<open>undefined\<close> and its branch of
  \<^verbatim>\<open>transformValue\<close> is skipped: with \<^verbatim>\<open>transformNumber\<close> not named, the text \<^verbatim>\<open>"42"\<close>
  under the number target comes back as text, where the pipe with the switch on returns
  the number 42. The constructor's documentation gives \<^verbatim>\<open>default: true\<close> for each switch.
\<close>

theorem C2_unnamed_switch_is_off:
  "PrimitiveValidationPipe_transform ToString
     (PrimitiveValidationPipe_constructor
        (Some \<lparr>transformBoolean = Some True, transformNumber = None, transformString = None\<rparr>))
     (Plain (VString ''42'')) \<lparr>type = ''query'', metatype = Some Number, data = None\<rparr>
   = Inr (VString ''42'')
   \<and> PrimitiveValidationPipe_transform ToString
     (PrimitiveValidationPipe_constructor
        (Some \<lparr>transformBoolean = Some True, transformNumber = Some True, transformString = Some True\<rparr>))
     (Plain (VString ''42'')) \<lparr>type = ''query'', metatype = Some Number, data = None\<rparr>
   = Inr (VNumber (Finite 42))"
  by (simp add: PrimitiveValidationPipe_transform_def PrimitiveValidationPipe_constructor_def
      transformValue_def truthy_def StringToNumber_42 isNaN_def)

section \<open>Error propagation\<close>

text \<open>
  Once the input has resolved to a value that is neither \<^verbatim>\<open>null\<close> nor \<^verbatim>\<open>undefined\<close> and
  a metatype is declared, \<^verbatim>\<open>transform\<close> is its \<^verbatim>\<open>try\<close> block followed by its handler.
\<close>

lemma PrimitiveValidationPipe_transform_resolved:
  "input = Plain v \<or> input = Promise (Fulfilled v) \<Longrightarrow> v \<noteq> VNull \<Longrightarrow> v \<noteq> VUndefined \<Longrightarrow>
   metatype metadata = Some mt \<Longrightarrow>
   PrimitiveValidationPipe_transform ToString this input metadata =
     (case transformValue ToString this v mt of
        Inr result \<Rightarrow> Inr result
      | Inl error \<Rightarrow> Inl (PrimitiveValidationPipe_catch metadata error))"
  by (auto simp: PrimitiveValidationPipe_transform_def)

lemma ClassValidationPipe_transform_resolved:
  "input = Plain v \<or> input = Promise (Fulfilled v) \<Longrightarrow> v \<noteq> VNull \<Longrightarrow> v \<noteq> VUndefined \<Longrightarrow>
   metatype metadata = Some mt \<Longrightarrow> ClassValidationPipe_toValidate mt \<Longrightarrow>
   ClassValidationPipe_transform caps this input metadata =
     (case ClassValidationPipe_try caps this mt v of
        (calls, Inr object) \<Rightarrow> (calls, Inr object)
      | (calls, Inl error) \<Rightarrow> (calls, Inl (ClassValidationPipe_catch error)))"
  by (auto simp: ClassValidationPipe_transform_def)

text \<open>
  C3, as the claim states it: in both stages a failure that is already a
  \<^verbatim>\<open>BadRequestException\<close> is re-raised unchanged, and any other failure is wrapped with a
  message that includes the argument-kind label \<^verbatim>\<open>metadata.type\<close>. The second half fails
  in the structured stage: its handler answers every other failure with the fixed
  message \<^verbatim>\<open>Validation failed\<close>. Here \<^verbatim>\<open>plainToInstance\<close> throws an \<^verbatim>\<open>Error\<close> for a body
  argument, and the label \<^verbatim>\<open>body\<close> is no part of the resulting message.
\<close>

theorem C3_structured_stage_omits_label:
  "ClassValidationPipe_transform
     \<lparr>plainToInstance = failing_plainToInstance, validate = no_violations\<rparr>
     (ClassValidationPipe_constructor None None) (Plain (VObject 0))
     \<lparr>type = ''body'', metatype = Some (Class 0), data = None\<rparr>
   = ([Call_plainToInstance], Inl (BadRequestException ''Validation failed''))
   \<and> \<not> sublist ''body'' ''Validation failed''"
proof -
  have absent: "\<not> sublist ''body'' ''Validation failed''"
    by code_simp
  show ?thesis
    using absent
    by (simp add: ClassValidationPipe_transform_def ClassValidationPipe_toValidate_def
        ClassValidationPipe_try_def ClassValidationPipe_catch_def failing_plainToInstance_def)
qed

text \<open>
  C3, amended: in both stages a \<^verbatim>\<open>BadRequestException\<close> raised inside the \<^verbatim>\<open>try\<close> block of
  \<^verbatim>\<open>transform\<close> is re-raised unchanged. Any other failure (an \<^verbatim>\<open>Error\<close> with a message) is
  wrapped into a \<^verbatim>\<open>BadRequestException\<close>: by the primitive stage with the message
  \<^verbatim>\<open>Failed to validate <metadata.type>: <message>\<close>, which includes the label; by the
  structured stage, whether \<^verbatim>\<open>plainToInstance\<close> or \<^verbatim>\<open>validate\<close> threw it, with the fixed
  message \<^verbatim>\<open>Validation failed\<close>.
\<close>

theorem C3_error_propagation:
  assumes "input = Plain v \<or> input = Promise (Fulfilled v)"
    and "v \<noteq> VNull" and "v \<noteq> VUndefined"
    and "metatype metadata = Some mt"
  shows
   "(transformValue ToString this v mt = Inl (BadRequestException m) \<longrightarrow>
      PrimitiveValidationPipe_transform ToString this input metadata = Inl (BadRequestException m))
    \<and> (transformValue ToString this v mt = Inl (Error m) \<longrightarrow>
      PrimitiveValidationPipe_transform ToString this input metadata
        = Inl (BadRequestException (''Failed to validate '' @ type metadata @ '': '' @ m))
      \<and> sublist (type metadata) (''Failed to validate '' @ type metadata @ '': '' @ m))
    \<and> (ClassValidationPipe_toValidate mt \<longrightarrow>
        (plainToInstance caps mt v (ClassValidationPipe.transformOptions cthis)
           = Inl (BadRequestException m) \<longrightarrow>
         ClassValidationPipe_transform caps cthis input metadata
           = ([Call_plainToInstance], Inl (BadRequestException m)))
      \<and> (plainToInstance caps mt v (ClassValidationPipe.transformOptions cthis) = Inl (Error m) \<longrightarrow>
         ClassValidationPipe_transform caps cthis input metadata
           = ([Call_plainToInstance], Inl (BadRequestException ''Validation failed'')))
      \<and> (plainToInstance caps mt v (ClassValidationPipe.transformOptions cthis) = Inr object
           \<and> validate caps object (ClassValidationPipe.validatorOptions cthis)
               = Inl (BadRequestException m) \<longrightarrow>
         ClassValidationPipe_transform caps cthis input metadata
           = ([Call_plainToInstance, Call_validate], Inl (BadRequestException m)))
      \<and> (plainToInstance caps mt v (ClassValidationPipe.transformOptions cthis) = Inr object
           \<and> validate caps object (ClassValidationPipe.validatorOptions cthis) = Inl (Error m) \<longrightarrow>
         ClassValidationPipe_transform caps cthis input metadata
           = ([Call_plainToInstance, Call_validate], Inl (BadRequestException ''Validation failed''))))"
proof -
  have p: "PrimitiveValidationPipe_transform ToString this input metadata =
     (case transformValue ToString this v mt of
        Inr result \<Rightarrow> Inr result
      | Inl error \<Rightarrow> Inl (PrimitiveValidationPipe_catch metadata error))"
    using assms by (rule PrimitiveValidationPipe_transform_resolved)
  have c: "ClassValidationPipe_toValidate mt \<Longrightarrow>
     ClassValidationPipe_transform caps cthis input metadata =
     (case ClassValidationPipe_try caps cthis mt v of
        (calls, Inr object) \<Rightarrow> (calls, Inr object)
      | (calls, Inl error) \<Rightarrow> (calls, Inl (ClassValidationPipe_catch error)))"
    using assms by (rule ClassValidationPipe_transform_resolved)
  have s: "sublist (type metadata) (''Failed to validate '' @ type metadata @ '': '' @ m)"
    by (rule sublist_appendI)
  show ?thesis
    using s by (simp add: p c PrimitiveValidationPipe_catch_def ClassValidationPipe_try_def
        ClassValidationPipe_catch_def)
qed

theorem C3_error_propagation_witness:
  "PrimitiveValidationPipe_transform failing_ToString (PrimitiveValidationPipe_constructor None)
     (Plain (VString ''abc'')) \<lparr>type = ''query'', metatype = Some Number, data = None\<rparr>
     = Inl (BadRequestException (''Cannot convert '' @ quote @ ''abc'' @ quote @ '' to a number''))
   \<and> PrimitiveValidationPipe_transform failing_ToString (PrimitiveValidationPipe_constructor None)
     (Plain (VObject 0)) \<lparr>type = ''body'', metatype = Some String, data = None\<rparr>
     = Inl (BadRequestException ''Failed to validate body: Cannot convert object to primitive value'')
   \<and> ClassValidationPipe_transform
     \<lparr>plainToInstance = identity_plainToInstance, validate = classified_validate\<rparr>
     (ClassValidationPipe_constructor None None) (Promise (Fulfilled (VObject 0)))
     \<lparr>type = ''body'', metatype = Some (Class 0), data = None\<rparr>
     = ([Call_plainToInstance, Call_validate], Inl (BadRequestException ''custom rule failed''))
   \<and> ClassValidationPipe_transform
     \<lparr>plainToInstance = identity_plainToInstance, validate = failing_validate\<rparr>
     (ClassValidationPipe_constructor None None) (Promise (Fulfilled (VObject 0)))
     \<lparr>type = ''body'', metatype = Some (Class 0), data = None\<rparr>
     = ([Call_plainToInstance, Call_validate], Inl (BadRequestException ''Validation failed''))"
proof -
  let ?p = "PrimitiveValidationPipe_constructor None"
  let ?c = "ClassValidationPipe_constructor None None"
  let ?q = "\<lparr>type = ''query'', metatype = Some Number, data = None\<rparr>"
  let ?s = "\<lparr>type = ''body'', metatype = Some String, data = None\<rparr>"
  let ?b = "\<lparr>type = ''body'', metatype = Some (Class 0), data = None\<rparr>"
  have t: "truthy (transformNumber (options ?p))" "truthy (transformString (options ?p))"
    by (simp_all add: PrimitiveValidationPipe_constructor_def truthy_def)
  have v1: "transformValue failing_ToString ?p (VString ''abc'') Number
      = Inl (BadRequestException (''Cannot convert '' @ quote @ ''abc'' @ quote @ '' to a number''))"
    by (simp add: transformValue_number_text t StringToNumber_abc)
  have v2: "transformValue failing_ToString ?p (VObject 0) String
      = Inl (Error ''Cannot convert object to primitive value'')"
    using t by (simp add: transformValue_def failing_ToString_def)
  have tv: "ClassValidationPipe_toValidate (Class 0)"
    by (simp add: ClassValidationPipe_toValidate_def)
  have a: "PrimitiveValidationPipe_transform failing_ToString ?p (Plain (VString ''abc'')) ?q
      = Inl (BadRequestException (''Cannot convert '' @ quote @ ''abc'' @ quote @ '' to a number''))"
    using C3_error_propagation [where input = "Plain (VString ''abc'')" and v = "VString ''abc''"
        and metadata = ?q and mt = Number and ToString = failing_ToString and this = ?p
        and m = "''Cannot convert '' @ quote @ ''abc'' @ quote @ '' to a number''"] v1
    by simp
  have b: "PrimitiveValidationPipe_transform failing_ToString ?p (Plain (VObject 0)) ?s
      = Inl (BadRequestException ''Failed to validate body: Cannot convert object to primitive value'')"
    using C3_error_propagation [where input = "Plain (VObject 0)" and v = "VObject 0"
        and metadata = ?s and mt = String and ToString = failing_ToString and this = ?p
        and m = "''Cannot convert object to primitive value''"] v2
    by simp
  have c: "ClassValidationPipe_transform
      \<lparr>plainToInstance = identity_plainToInstance, validate = classified_validate\<rparr> ?c
      (Promise (Fulfilled (VObject 0))) ?b
      = ([Call_plainToInstance, Call_validate], Inl (BadRequestException ''custom rule failed''))"
    using C3_error_propagation [where input = "Promise (Fulfilled (VObject 0))" and v = "VObject 0"
        and metadata = ?b and mt = "Class 0" and cthis = ?c and object = "VObject 0"
        and caps = "\<lparr>plainToInstance = identity_plainToInstance, validate = classified_validate\<rparr>"
        and m = "''custom rule failed''"] tv
    by (simp add: identity_plainToInstance_def classified_validate_def)
  have d: "ClassValidationPipe_transform
      \<lparr>plainToInstance = identity_plainToInstance, validate = failing_validate\<rparr> ?c
      (Promise (Fulfilled (VObject 0))) ?b
      = ([Call_plainToInstance, Call_validate], Inl (BadRequestException ''Validation failed''))"
    using C3_error_propagation [where input = "Promise (Fulfilled (VObject 0))" and v = "VObject 0"
        and metadata = ?b and mt = "Class 0" and cthis = ?c and object = "VObject 0"
        and caps = "\<lparr>plainToInstance = identity_plainToInstance, validate = failing_validate\<rparr>"
        and m = "''database unreachable''"] tv
    by (simp add: identity_plainToInstance_def failing_validate_def)
  show ?thesis
    using a b c d by (intro conjI)
qed

section \<open>The boolean target\<close>

text \<open>
  The source lower-cases and then trims; the two commute, since lower-casing neither
  makes nor removes white space.
\<close>

lemma isStrWhiteSpaceChar_toLowerCaseChar:
  "isStrWhiteSpaceChar (toLowerCaseChar c) = isStrWhiteSpaceChar c"
  unfolding isStrWhiteSpaceChar_def toLowerCaseChar_def Let_def by auto

lemma dropWhile_toLowerCase:
  "dropWhile isStrWhiteSpaceChar (map toLowerCaseChar s)
   = map toLowerCaseChar (dropWhile isStrWhiteSpaceChar s)"
  by (induction s) (simp_all add: isStrWhiteSpaceChar_toLowerCaseChar)

lemma trim_toLowerCase: "trim (toLowerCase s) = toLowerCase (trim s)"
  by (simp add: trim_def toLowerCase_def dropWhile_toLowerCase rev_map)

text \<open>With boolean coercion on, every failure of the boolean branch is a \<^verbatim>\<open>BadRequestException\<close>.\<close>

lemma transformValue_boolean_classified:
  "truthy (transformBoolean (options this)) \<Longrightarrow>
   transformValue ToString this v Boolean \<noteq> Inl (Error m)"
  by (cases v) (auto simp: transformValue_def Let_def)

text \<open>
  C4. Under the boolean target with boolean coercion enabled, \<^verbatim>\<open>transformValue\<close> returns a
  boolean as it is; for a text it takes the trimmed, lower-cased text, answers \<^verbatim>\<open>true\<close>
  for \<^verbatim>\<open>true\<close>, \<^verbatim>\<open>yes\<close>, \<^verbatim>\<open>1\<close>, \<^verbatim>\<open>on\<close>, \<^verbatim>\<open>false\<close> for \<^verbatim>\<open>false\<close>, \<^verbatim>\<open>no\<close>, \<^verbatim>\<open>0\<close>, \<^verbatim>\<open>off\<close>, and
  fails with \<^verbatim>\<open>Cannot convert string '<value>' to a boolean\<close> for any other; for a number
  it answers the number's truthiness, which is \<^verbatim>\<open>false\<close> for zero and \<^verbatim>\<open>true\<close> for every
  nonzero number, negative ones and the infinities included (\<^verbatim>\<open>NaN\<close>, which is not a
  number, has the truthiness \<^verbatim>\<open>false\<close>); and for a value of any other runtime kind it
  fails with \<^verbatim>\<open>Cannot convert <typeof value> to a boolean\<close>. For an input that resolves to
  a value other than \<^verbatim>\<open>null\<close> and \<^verbatim>\<open>undefined\<close>, \<^verbatim>\<open>transform\<close> gives exactly this outcome.
\<close>

theorem C4_boolean_target:
  assumes "truthy (transformBoolean (options this))"
  shows
   "transformValue ToString this (VBoolean b) Boolean = Inr (VBoolean b)
    \<and> (trim (toLowerCase s) \<in> set [''true'', ''yes'', ''1'', ''on''] \<longrightarrow>
         transformValue ToString this (VString s) Boolean = Inr (VBoolean True))
    \<and> (trim (toLowerCase s) \<in> set [''false'', ''no'', ''0'', ''off''] \<longrightarrow>
         transformValue ToString this (VString s) Boolean = Inr (VBoolean False))
    \<and> (trim (toLowerCase s) \<notin> set [''true'', ''yes'', ''1'', ''on'', ''false'', ''no'', ''0'', ''off''] \<longrightarrow>
         transformValue ToString this (VString s) Boolean
           = Inl (BadRequestException (''Cannot convert string '' @ quote @ s @ quote @ '' to a boolean'')))
    \<and> transformValue ToString this (VNumber n) Boolean = Inr (VBoolean (ToBoolean n))
    \<and> ToBoolean (Finite 0) = False \<and> ToBoolean NegZero = False
    \<and> (r \<noteq> 0 \<longrightarrow> ToBoolean (Finite r) = True)
    \<and> ToBoolean Infinity = True \<and> ToBoolean NegInfinity = True
    \<and> (typeof v \<notin> set [''boolean'', ''string'', ''number''] \<longrightarrow>
         transformValue ToString this v Boolean
           = Inl (BadRequestException (''Cannot convert '' @ typeof v @ '' to a boolean'')))
    \<and> ((input = Plain v \<or> input = Promise (Fulfilled v)) \<and> v \<noteq> VNull \<and> v \<noteq> VUndefined
          \<and> metatype metadata = Some Boolean \<longrightarrow>
         PrimitiveValidationPipe_transform ToString this input metadata
           = transformValue ToString this v Boolean)"
proof -
  have rules:
   "transformValue ToString this (VBoolean b) Boolean = Inr (VBoolean b)
    \<and> (trim (toLowerCase s) \<in> set [''true'', ''yes'', ''1'', ''on''] \<longrightarrow>
         transformValue ToString this (VString s) Boolean = Inr (VBoolean True))
    \<and> (trim (toLowerCase s) \<in> set [''false'', ''no'', ''0'', ''off''] \<longrightarrow>
         transformValue ToString this (VString s) Boolean = Inr (VBoolean False))
    \<and> (trim (toLowerCase s) \<notin> set [''true'', ''yes'', ''1'', ''on'', ''false'', ''no'', ''0'', ''off''] \<longrightarrow>
         transformValue ToString this (VString s) Boolean
           = Inl (BadRequestException (''Cannot convert string '' @ quote @ s @ quote @ '' to a boolean'')))
    \<and> transformValue ToString this (VNumber n) Boolean = Inr (VBoolean (ToBoolean n))
    \<and> ToBoolean (Finite 0) = False \<and> ToBoolean NegZero = False
    \<and> (r \<noteq> 0 \<longrightarrow> ToBoolean (Finite r) = True)
    \<and> ToBoolean Infinity = True \<and> ToBoolean NegInfinity = True
    \<and> (typeof v \<notin> set [''boolean'', ''string'', ''number''] \<longrightarrow>
         transformValue ToString this v Boolean
           = Inl (BadRequestException (''Cannot convert '' @ typeof v @ '' to a boolean'')))"
    using assms by (cases v) (auto simp: transformValue_def ToBoolean_def Let_def)
  have stage: "PrimitiveValidationPipe_transform ToString this input metadata
      = transformValue ToString this v Boolean"
    if "input = Plain v \<or> input = Promise (Fulfilled v)" "v \<noteq> VNull" "v \<noteq> VUndefined"
      "metatype metadata = Some Boolean"
    using PrimitiveValidationPipe_transform_resolved [OF that]
      transformValue_boolean_classified [OF assms, of ToString v]
    by (auto simp: PrimitiveValidationPipe_catch_def split: sum.splits thrown.splits)
  show ?thesis
    using rules stage by blast
qed

theorem C4_boolean_target_witness:
  "transformValue failing_ToString (PrimitiveValidationPipe_constructor None) (VBoolean False) Boolean
     = Inr (VBoolean False)
   \<and> transformValue failing_ToString (PrimitiveValidationPipe_constructor None) (VString '' YES '') Boolean
     = Inr (VBoolean True)
   \<and> transformValue failing_ToString (PrimitiveValidationPipe_constructor None) (VString ''Off'') Boolean
     = Inr (VBoolean False)
   \<and> transformValue failing_ToString (PrimitiveValidationPipe_constructor None) (VString ''maybe'') Boolean
     = Inl (BadRequestException (''Cannot convert string '' @ quote @ ''maybe'' @ quote @ '' to a boolean''))
   \<and> transformValue failing_ToString (PrimitiveValidationPipe_constructor None) (VNumber (Finite (- 1))) Boolean
     = Inr (VBoolean True)
   \<and> transformValue failing_ToString (PrimitiveValidationPipe_constructor None) (VNumber (Finite 0)) Boolean
     = Inr (VBoolean False)
   \<and> transformValue failing_ToString (PrimitiveValidationPipe_constructor None) (VObject 0) Boolean
     = Inl (BadRequestException ''Cannot convert object to a boolean'')
   \<and> PrimitiveValidationPipe_transform failing_ToString (PrimitiveValidationPipe_constructor None)
     (Promise (Fulfilled (VObject 0))) \<lparr>type = ''query'', metatype = Some Boolean, data = None\<rparr>
     = Inl (BadRequestException ''Cannot convert object to a boolean'')"
proof -
  let ?p = "PrimitiveValidationPipe_constructor None"
  have t: "truthy (transformBoolean (options ?p))"
    by (simp add: PrimitiveValidationPipe_constructor_def truthy_def)
  have yes: "trim (toLowerCase '' YES '') = ''yes''"
    by code_simp
  have off: "trim (toLowerCase ''Off'') = ''off''"
    by code_simp
  have maybe: "trim (toLowerCase ''maybe'') = ''maybe''"
    by code_simp
  show ?thesis
    using C4_boolean_target [OF t, where ToString = failing_ToString and b = False
        and s = "'' YES ''" and n = "Finite (- 1)" and r = "- 1" and v = "VObject 0"
        and input = "Promise (Fulfilled (VObject 0))"
        and metadata = "\<lparr>type = ''query'', metatype = Some Boolean, data = None\<rparr>"]
      C4_boolean_target [OF t, where ToString = failing_ToString and s = "''Off''" and n = "Finite 0"]
      C4_boolean_target [OF t, where ToString = failing_ToString and s = "''maybe''"]
    by (simp add: yes off maybe)
qed

section \<open>The message of a failed validation\<close>

lemma join_snoc: "names \<noteq> [] \<Longrightarrow> join sep (names @ [p]) = join sep names @ sep @ p"
  by (induction sep names rule: join.induct) simp_all

lemma join_nonempty: "names \<noteq> [] \<Longrightarrow> hd names \<noteq> [] \<Longrightarrow> join sep names \<noteq> []"
  by (induction sep names rule: join.induct) simp_all

text \<open>
  Below a parent whose path is the dot-joined list of its ancestors' names, the first of
  them not empty, \<^verbatim>\<open>buildErrorMessages\<close> is the specification's flattening, provided no
  name in the forest is empty.
\<close>

lemma buildErrorMessages_nested:
  "names_nonempty errors \<Longrightarrow> ancestors \<noteq> [] \<Longrightarrow> hd ancestors \<noteq> [] \<Longrightarrow>
   ClassValidationPipe_buildErrorMessages errors (Some (join ''.'' ancestors))
   = spec_flatten ancestors errors"
proof (induction ancestors errors rule: spec_flatten.induct)
  case (1 ancestors)
  then show ?case by simp
next
  case (2 ancestors property constraints children errors)
  have path: "join ''.'' (ancestors @ [property]) = join ''.'' ancestors @ ''.'' @ property"
    using "2.prems" by (simp add: join_snoc)
  have ne: "join ''.'' ancestors \<noteq> []"
    using "2.prems" by (simp add: join_nonempty)
  have rest: "ClassValidationPipe_buildErrorMessages errors (Some (join ''.'' ancestors))
      = spec_flatten ancestors errors"
    using "2.IH"(2) "2.prems" by simp
  have kids: "children = Some cs \<Longrightarrow>
      ClassValidationPipe_buildErrorMessages cs (Some (join ''.'' (ancestors @ [property])))
        = spec_flatten (ancestors @ [property]) cs" for cs
    using "2.IH"(1) "2.prems" by simp
  show ?case
    using ne rest kids
    by (cases children; cases constraints) (auto simp: Let_def path)
qed

lemma buildErrorMessages_top:
  "names_nonempty errors \<Longrightarrow>
   ClassValidationPipe_buildErrorMessages errors None = spec_flatten [] errors"
proof (induction errors)
  case Nil
  then show ?case by simp
next
  case (Cons error errors)
  obtain property constraints children
    where e: "error = ValidationError property constraints children"
    by (cases error)
  have rest: "ClassValidationPipe_buildErrorMessages errors None = spec_flatten [] errors"
    using Cons by (simp add: e)
  have kids: "children = Some cs \<Longrightarrow>
      ClassValidationPipe_buildErrorMessages cs (Some property) = spec_flatten [property] cs" for cs
    using Cons.prems buildErrorMessages_nested [of cs "[property]"] by (simp add: e)
  show ?case
    using rest kids by (cases children; cases constraints) (auto simp: e Let_def)
qed

text \<open>
  C5, as the claim states it: for every violation forest that \<^verbatim>\<open>validate\<close> reports, the
  stage fails with the message made of the segments \<^verbatim>\<open><propertyPath>: <messages>\<close> in
  depth-first order, joined with \<^verbatim>\<open>; \<close>, the path of a node being its ancestors' names
  and its own joined with a dot. \<^verbatim>\<open>buildErrorMessages\<close> puts the parent's path and the
  dot in front of a name only when the parent's path is a non-empty string
  (\<^verbatim>\<open>parentProperty ? ... : error.property\<close>). Under a parent whose property name is the
  empty string the child \<^verbatim>\<open>c\<close> is reported as \<^verbatim>\<open>c: m\<close>, where the names joined with a dot
  give \<^verbatim>\<open>.c: m\<close>.
\<close>

theorem C5_unnamed_parent:
  "ClassValidationPipe_transform
     \<lparr>plainToInstance = identity_plainToInstance, validate = report_unnamed_parent\<rparr>
     (ClassValidationPipe_constructor None None) (Plain (VObject 0))
     \<lparr>type = ''body'', metatype = Some (Class 0), data = None\<rparr>
   = ([Call_plainToInstance, Call_validate], Inl (BadRequestException ''c: m''))
   \<and> join ''; '' (spec_flatten [] unnamed_parent_violations) = ''.c: m''
   \<and> ClassValidationPipe_transform
     \<lparr>plainToInstance = identity_plainToInstance, validate = report_unnamed_parent\<rparr>
     (ClassValidationPipe_constructor None None) (Plain (VObject 0))
     \<lparr>type = ''body'', metatype = Some (Class 0), data = None\<rparr>
   \<noteq> ([Call_plainToInstance, Call_validate],
       Inl (BadRequestException (join ''; '' (spec_flatten [] unnamed_parent_violations))))"
  by (simp add: ClassValidationPipe_transform_def ClassValidationPipe_toValidate_def
      ClassValidationPipe_try_def ClassValidationPipe_catch_def identity_plainToInstance_def
      report_unnamed_parent_def unnamed_parent_violations_def)

text \<open>
  C5, amended: for every non-empty violation forest reported by \<^verbatim>\<open>validate\<close> in which no
  property name is the empty string, the stage fails with a \<^verbatim>\<open>BadRequestException\<close> whose
  message is exactly the specification's flattening joined with \<^verbatim>\<open>; \<close>: depth first, a
  node's segment before those of its children, each segment the dot-joined path of the
  node, a colon and the node's constraint messages joined with a comma (a node without
  constraints contributes no segment of its own).
\<close>

theorem C5_violation_message:
  assumes "input = Plain v \<or> input = Promise (Fulfilled v)"
    and "v \<noteq> VNull" and "v \<noteq> VUndefined"
    and "metatype metadata = Some mt" and "ClassValidationPipe_toValidate mt"
    and "plainToInstance caps mt v (ClassValidationPipe.transformOptions this) = Inr object"
    and "validate caps object (ClassValidationPipe.validatorOptions this) = Inr errors"
    and "errors \<noteq> []" and "names_nonempty errors"
  shows "ClassValidationPipe_transform caps this input metadata
     = ([Call_plainToInstance, Call_validate],
        Inl (BadRequestException (join ''; '' (spec_flatten [] errors))))"
  using assms
  by (auto simp: ClassValidationPipe_transform_def ClassValidationPipe_try_def
      ClassValidationPipe_catch_def buildErrorMessages_top)

theorem C5_violation_message_witness:
  "ClassValidationPipe_transform
     \<lparr>plainToInstance = identity_plainToInstance, validate = report_user_violations\<rparr>
     (ClassValidationPipe_constructor None None) (Plain (VObject 0))
     \<lparr>type = ''body'', metatype = Some (Class 0), data = None\<rparr>
   = ([Call_plainToInstance, Call_validate],
      Inl (BadRequestException
        ''name: name is too short, name must be a string; address.street: street must be a string''))"
proof -
  let ?caps = "\<lparr>plainToInstance = identity_plainToInstance, validate = report_user_violations\<rparr>"
  let ?c = "ClassValidationPipe_constructor None None"
  let ?b = "\<lparr>type = ''body'', metatype = Some (Class 0), data = None\<rparr>"
  have tv: "ClassValidationPipe_toValidate (Class 0)"
    by (simp add: ClassValidationPipe_toValidate_def)
  have p: "plainToInstance ?caps (Class 0) (VObject 0) (ClassValidationPipe.transformOptions ?c)
      = Inr (VObject 0)"
    by (simp add: identity_plainToInstance_def)
  have r: "validate ?caps (VObject 0) (ClassValidationPipe.validatorOptions ?c) = Inr user_violations"
    by (simp add: report_user_violations_def)
  have n: "user_violations \<noteq> []" "names_nonempty user_violations"
    by (simp_all add: user_violations_def)
  have f: "join ''; '' (spec_flatten [] user_violations)
      = ''name: name is too short, name must be a string; address.street: street must be a string''"
    by (simp add: user_violations_def)
  show ?thesis
    using C5_violation_message [where input = "Plain (VObject 0)" and v = "VObject 0"
        and metadata = ?b and mt = "Class 0" and caps = ?caps and this = ?c
        and object = "VObject 0" and errors = user_violations, OF _ _ _ _ tv p r n]
    by (simp add: f)
qed

section \<open>Unexpected failures of the structured stage\<close>

text \<open>
  C6. In the structured stage (a declared class metatype, a resolved value that is neither
  \<^verbatim>\<open>null\<close> nor \<^verbatim>\<open>undefined\<close>), a failure thrown by \<^verbatim>\<open>plainToInstance\<close> or by \<^verbatim>\<open>validate\<close>
  that is not a \<^verbatim>\<open>BadRequestException\<close> is answered with a \<^verbatim>\<open>BadRequestException\<close> whose
  message is exactly \<^verbatim>\<open>Validation failed\<close>, whatever the message of the cause.
\<close>

theorem C6_generic_message:
  assumes "input = Plain v \<or> input = Promise (Fulfilled v)"
    and "v \<noteq> VNull" and "v \<noteq> VUndefined"
    and "metatype metadata = Some mt" and "ClassValidationPipe_toValidate mt"
  shows
   "(plainToInstance caps mt v (ClassValidationPipe.transformOptions this) = Inl (Error cause) \<longrightarrow>
       ClassValidationPipe_transform caps this input metadata
         = ([Call_plainToInstance], Inl (BadRequestException ''Validation failed'')))
    \<and> (plainToInstance caps mt v (ClassValidationPipe.transformOptions this) = Inr object
         \<and> validate caps object (ClassValidationPipe.validatorOptions this) = Inl (Error cause) \<longrightarrow>
       ClassValidationPipe_transform caps this input metadata
         = ([Call_plainToInstance, Call_validate], Inl (BadRequestException ''Validation failed'')))"
  using assms
  by (auto simp: ClassValidationPipe_transform_def ClassValidationPipe_try_def
      ClassValidationPipe_catch_def)

theorem C6_generic_message_witness:
  "ClassValidationPipe_transform
     \<lparr>plainToInstance = failing_plainToInstance, validate = no_violations\<rparr>
     (ClassValidationPipe_constructor None None) (Plain (VObject 0))
     \<lparr>type = ''body'', metatype = Some (Class 0), data = None\<rparr>
     = ([Call_plainToInstance], Inl (BadRequestException ''Validation failed''))
   \<and> ClassValidationPipe_transform
     \<lparr>plainToInstance = identity_plainToInstance, validate = failing_validate\<rparr>
     (ClassValidationPipe_constructor None None) (Plain (VObject 0))
     \<lparr>type = ''body'', metatype = Some (Class 0), data = None\<rparr>
     = ([Call_plainToInstance, Call_validate], Inl (BadRequestException ''Validation failed''))"
proof -
  let ?c = "ClassValidationPipe_constructor None None"
  let ?b = "\<lparr>type = ''body'', metatype = Some (Class 0), data = None\<rparr>"
  have tv: "ClassValidationPipe_toValidate (Class 0)"
    by (simp add: ClassValidationPipe_toValidate_def)
  have a: "ClassValidationPipe_transform
      \<lparr>plainToInstance = failing_plainToInstance, validate = no_violations\<rparr> ?c
      (Plain (VObject 0)) ?b
      = ([Call_plainToInstance], Inl (BadRequestException ''Validation failed''))"
    using C6_generic_message [where input = "Plain (VObject 0)" and v = "VObject 0"
        and metadata = ?b and mt = "Class 0" and this = ?c and cause = "''boom''"
        and caps = "\<lparr>plainToInstance = failing_plainToInstance, validate = no_violations\<rparr>"] tv
    by (simp add: failing_plainToInstance_def)
  have b: "ClassValidationPipe_transform
      \<lparr>plainToInstance = identity_plainToInstance, validate = failing_validate\<rparr> ?c
      (Plain (VObject 0)) ?b
      = ([Call_plainToInstance, Call_validate], Inl (BadRequestException ''Validation failed''))"
    using C6_generic_message [where input = "Plain (VObject 0)" and v = "VObject 0"
        and metadata = ?b and mt = "Class 0" and this = ?c and cause = "''database unreachable''"
        and object = "VObject 0"
        and caps = "\<lparr>plainToInstance = identity_plainToInstance, validate = failing_validate\<rparr>"] tv
    by (simp add: identity_plainToInstance_def failing_validate_def)
  show ?thesis
    using a b by (intro conjI)
qed

section \<open>Pass-through\<close>

text \<open>
  An input that is a rejected promise has no resolved value: both stages fail with
  \<^verbatim>\<open>Invalid request data\<close> before they look at the metadata.
\<close>

lemma rejected_promise:
  "PrimitiveValidationPipe_transform ToString pthis (Promise (Rejected reason)) metadata
     = Inl (BadRequestException ''Invalid request data'')"
  "ClassValidationPipe_transform caps cthis (Promise (Rejected reason)) metadata
     = ([], Inl (BadRequestException ''Invalid request data''))"
  by (simp_all add: PrimitiveValidationPipe_transform_def ClassValidationPipe_transform_def)

text \<open>
  C7. When the input resolves to a value (it is a plain value or a fulfilled promise) and
  the descriptor declares no metatype or one of \<^verbatim>\<open>String\<close>, \<^verbatim>\<open>Number\<close>, \<^verbatim>\<open>Boolean\<close>,
  \<^verbatim>\<open>Array\<close>, \<^verbatim>\<open>Object\<close>, the structured stage returns the resolved value unchanged, raises
  nothing, and calls neither \<^verbatim>\<open>plainToInstance\<close> nor \<^verbatim>\<open>validate\<close>: the list of calls is
  empty, and the result is the same for every pair of these functions.
\<close>

theorem C7_builtin_metatype_passthrough:
  assumes "input = Plain v \<or> input = Promise (Fulfilled v)"
    and "metatype metadata = None
         \<or> metatype metadata \<in> set [Some String, Some Number, Some Boolean, Some Array, Some Object]"
  shows "ClassValidationPipe_transform caps this input metadata = ([], Inr v)"
  using assms
  by (auto simp: ClassValidationPipe_transform_def ClassValidationPipe_toValidate_def)

theorem C7_builtin_metatype_passthrough_witness:
  "ClassValidationPipe_transform
     \<lparr>plainToInstance = failing_plainToInstance, validate = failing_validate\<rparr>
     (ClassValidationPipe_constructor None None) (Plain (VObject 0))
     \<lparr>type = ''body'', metatype = Some Object, data = None\<rparr>
     = ([], Inr (VObject 0))
   \<and> ClassValidationPipe_transform
     \<lparr>plainToInstance = failing_plainToInstance, validate = failing_validate\<rparr>
     (ClassValidationPipe_constructor None None) (Promise (Fulfilled (VString ''7'')))
     \<lparr>type = ''query'', metatype = None, data = None\<rparr>
     = ([], Inr (VString ''7''))"
  using
    C7_builtin_metatype_passthrough [where input = "Plain (VObject 0)" and v = "VObject 0"
      and metadata = "\<lparr>type = ''body'', metatype = Some Object, data = None\<rparr>"
      and caps = "\<lparr>plainToInstance = failing_plainToInstance, validate = failing_validate\<rparr>"
      and this = "ClassValidationPipe_constructor None None"]
    C7_builtin_metatype_passthrough [where input = "Promise (Fulfilled (VString ''7''))"
      and v = "VString ''7''"
      and metadata = "\<lparr>type = ''query'', metatype = None, data = None\<rparr>"
      and caps = "\<lparr>plainToInstance = failing_plainToInstance, validate = failing_validate\<rparr>"
      and this = "ClassValidationPipe_constructor None None"]
  by simp

text \<open>
  C8. When the input resolves to \<^verbatim>\<open>null\<close> or \<^verbatim>\<open>undefined\<close>, both stages return that value
  unchanged and raise nothing, whatever the metatype and the options of the pipe: the
  primitive stage does not reach \<^verbatim>\<open>transformValue\<close> (the result is the same for every
  \<^verbatim>\<open>String\<close> conversion and every options object), and the structured stage makes no call
  to \<^verbatim>\<open>plainToInstance\<close> or \<^verbatim>\<open>validate\<close>.
\<close>

theorem C8_nullish_passthrough:
  assumes "input = Plain v \<or> input = Promise (Fulfilled v)"
    and "v = VNull \<or> v = VUndefined"
  shows "PrimitiveValidationPipe_transform ToString pthis input metadata = Inr v
    \<and> ClassValidationPipe_transform caps cthis input metadata = ([], Inr v)"
  using assms
  by (auto simp: PrimitiveValidationPipe_transform_def ClassValidationPipe_transform_def
      split: option.splits)

theorem C8_nullish_passthrough_witness:
  "PrimitiveValidationPipe_transform failing_ToString (PrimitiveValidationPipe_constructor None)
     (Plain VNull) \<lparr>type = ''query'', metatype = Some Number, data = None\<rparr> = Inr VNull
   \<and> ClassValidationPipe_transform
     \<lparr>plainToInstance = failing_plainToInstance, validate = failing_validate\<rparr>
     (ClassValidationPipe_constructor None None) (Promise (Fulfilled VUndefined))
     \<lparr>type = ''body'', metatype = Some (Class 0), data = None\<rparr>
     = ([], Inr VUndefined)"
  using
    C8_nullish_passthrough [where input = "Plain VNull" and v = VNull
      and ToString = failing_ToString and pthis = "PrimitiveValidationPipe_constructor None"
      and metadata = "\<lparr>type = ''query'', metatype = Some Number, data = None\<rparr>"]
    C8_nullish_passthrough [where input = "Promise (Fulfilled VUndefined)" and v = VUndefined
      and caps = "\<lparr>plainToInstance = failing_plainToInstance, validate = failing_validate\<rparr>"
      and cthis = "ClassValidationPipe_constructor None None"
      and metadata = "\<lparr>type = ''body'', metatype = Some (Class 0), data = None\<rparr>"]
  by simp

section \<open>The two class-validator pipes\<close>

lemma buildErrorMessages_same:
  "ClassValidatorPipe_buildErrorMessages errors parent
   = ClassValidationPipe_buildErrorMessages errors parent"
  by (induction errors parent rule: ClassValidationPipe_buildErrorMessages.induct)
     (auto simp: Let_def split: option.splits)

lemma toValidate_same: "ClassValidatorPipe_toValidate mt = ClassValidationPipe_toValidate mt"
  by (simp add: ClassValidatorPipe_toValidate_def ClassValidationPipe_toValidate_def)

lemma catch_same: "ClassValidatorPipe_catch error = ClassValidationPipe_catch error"
  by (simp add: ClassValidatorPipe_catch_def ClassValidationPipe_catch_def)

lemma try_same:
  "ClassValidatorPipe_try caps (ClassValidatorPipe_constructor vopts topts) mt v
   = ClassValidationPipe_try caps (ClassValidationPipe_constructor vopts topts) mt v"
  by (simp add: ClassValidatorPipe_try_def ClassValidationPipe_try_def
      ClassValidatorPipe_constructor_def ClassValidationPipe_constructor_def
      buildErrorMessages_same split: sum.splits)

text \<open>
  C10. \<^verbatim>\<open>ClassValidatorPipe\<close> and \<^verbatim>\<open>ClassValidationPipe\<close>, constructed from the same pair of
  option arguments and given the same external functions, value and metadata, make the
  same calls and produce the same outcome: the same value, or a failure of the same kind
  with the same message.
\<close>

theorem C10_pipes_equivalent:
  "ClassValidatorPipe_transform caps (ClassValidatorPipe_constructor vopts topts) input metadata
   = ClassValidationPipe_transform caps (ClassValidationPipe_constructor vopts topts) input metadata"
  by (simp add: ClassValidatorPipe_transform_def ClassValidationPipe_transform_def
      toValidate_same try_same catch_same
      split: sum.splits option.splits prod.splits input.splits promise.splits)

end
